theory Spec2Isabelle
  imports Complex_Main "HOL-Library.Product_Lexorder"
begin

section \<open>Exceptions\<close>

text \<open>
  The Python exceptions that the modelled code can raise. A function that can raise
  returns \<open>error + 'a\<close>, with \<open>Inl\<close> for the exception.
\<close>

datatype error = AttributeError | IndexError | KeyError | TypeError | ValueError

section \<open>Attacks, members and sides\<close>

text \<open>
  \<^verbatim>\<open>WarAttack._from_data\<close> (\<^verbatim>\<open>war_attack.py\<close>) fills five attributes from the payload. The
  back reference \<^verbatim>\<open>self.war\<close> is not a field: every property that follows it takes the
  war as an argument. The destruction percentage is a Python float read from JSON; only
  its comparisons are used, and it is modelled as a real number.
\<close>

record WarAttack =
  stars :: int
  destruction :: real
  order :: int
  attacker_tag :: string
  defender_tag :: string

text \<open>
  \<^verbatim>\<open>ClanWarMember\<close> (\<^verbatim>\<open>war_members.py\<close>) and \<^verbatim>\<open>WarClan\<close> (\<^verbatim>\<open>war_clans.py\<close>) are used by
  wars.py through the attributes below, which are taken as given fields.
\<close>

record ClanWarMember =
  tag :: string
  map_position :: int
  is_opponent :: bool
  attacks :: "WarAttack list"

record WarClan =
  stars :: int
  destruction :: real
  attacks :: "WarAttack list"
  members :: "ClanWarMember list"

text \<open>
  Modelled from the spec: \<^verbatim>\<open>WarClan.get_member\<close> (\<^verbatim>\<open>war_clans.py\<close>), the roster lookup
  that, given a tag, returns a member of that side or the not-found sentinel.
\<close>

definition WarClan_get_member :: "WarClan \<Rightarrow> string \<Rightarrow> ClanWarMember option" where
  "WarClan_get_member c t = find (\<lambda>m. tag m = t) (WarClan.members c)"

section \<open>Timestamps\<close>

text \<open>
  \<^verbatim>\<open>Timestamp\<close> (miscmodels.py) exposes \<^verbatim>\<open>time\<close>, a \<^verbatim>\<open>datetime\<close>. A datetime is
  modelled as its number of microseconds since a fixed epoch. Subtracting two datetimes
  gives a \<^verbatim>\<open>timedelta\<close>, which Python keeps normalised as days, seconds and
  microseconds with \<open>0 \<le> seconds < 86400\<close> and \<open>0 \<le> microseconds < 1000000\<close>; the
  attribute \<^verbatim>\<open>.seconds\<close> reads the middle component only.
\<close>

type_synonym datetime = int

record timedelta =
  days :: int
  seconds :: int
  microseconds :: int

definition timedelta_of_microseconds :: "int \<Rightarrow> timedelta" where
  "timedelta_of_microseconds us =
     \<lparr> days = us div (86400 * 1000000),
       seconds = (us div 1000000) mod 86400,
       microseconds = us mod 1000000 \<rparr>"

definition datetime_sub :: "datetime \<Rightarrow> datetime \<Rightarrow> timedelta" where
  "datetime_sub a b = timedelta_of_microseconds (a - b)"

record Timestamp =
  time :: datetime

section \<open>ClanWar\<close>

text \<open>
  \<^verbatim>\<open>ClanWar._from_data\<close>: \<^verbatim>\<open>state\<close> and \<^verbatim>\<open>war_tag\<close> come from \<^verbatim>\<open>data.get\<close> and are
  \<^verbatim>\<open>None\<close> when the key is absent; the three timestamps are \<^verbatim>\<open>None\<close> when their key
  is absent. Every method of the class reads \<^verbatim>\<open>self.clan\<close> and \<^verbatim>\<open>self.opponent\<close>
  without a guard, so the two sides are plain fields.
\<close>

record ClanWar =
  state :: "string option"
  preparation_start_time :: "Timestamp option"
  start_time :: "Timestamp option"
  end_time :: "Timestamp option"
  team_size :: int
  war_tag :: "string option"
  clan :: WarClan
  opponent :: WarClan

text \<open>
  \<^verbatim>\<open>sorted(xs, key=lambda x: x.order, reverse=True)\<close>. Python's sort is stable, and
  with \<^verbatim>\<open>reverse=True\<close> elements with equal keys keep their original order: the list is
  reversed, sorted stably in ascending order, and reversed again. \<^const>\<open>sort_key\<close> is a
  stable insertion sort.
\<close>

definition attacks :: "ClanWar \<Rightarrow> WarAttack list" where
  "attacks w =
     rev (sort_key order (rev (WarClan.attacks (clan w) @ WarClan.attacks (opponent w))))"

text \<open>
  \<^verbatim>\<open>sorted(xs, key=lambda x: (not x.is_opponent, x.map_position))\<close>: tuples compare
  lexicographically and \<^verbatim>\<open>False < True\<close>, which is the order of \<open>bool \<times> int\<close> here.
\<close>

definition members :: "ClanWar \<Rightarrow> ClanWarMember list" where
  "members w =
     sort_key (\<lambda>x. (\<not> is_opponent x, map_position x))
       (WarClan.members (clan w) @ WarClan.members (opponent w))"

text \<open>Truthiness of an optional string: \<^verbatim>\<open>None\<close> and \<^verbatim>\<open>""\<close> are both false.\<close>

definition truthy :: "string option \<Rightarrow> bool" where
  "truthy s = (case s of None \<Rightarrow> False | Some t \<Rightarrow> t \<noteq> [])"

definition prep_list :: "int list" where
  "prep_list =
     [15 * 60, 30 * 60, 60 * 60, 2 * 60 * 60, 4 * 60 * 60, 6 * 60 * 60, 8 * 60 * 60,
      12 * 60 * 60, 16 * 60 * 60, 20 * 60 * 60, 24 * 60 * 60]"

text \<open>
  \<^verbatim>\<open>ClanWar.type\<close>. The result is \<^verbatim>\<open>Optional[str]\<close>. Once the start time is known to
  be present, \<^verbatim>\<open>self.preparation_start_time.time\<close> is read without a guard and raises
  \<^verbatim>\<open>AttributeError\<close> on \<^verbatim>\<open>None\<close>.
\<close>

definition type :: "ClanWar \<Rightarrow> error + string option" where
  "type w =
     (if truthy (war_tag w) then Inr (Some ''cwl'')
      else case start_time w of
        None \<Rightarrow> Inr None
      | Some st \<Rightarrow>
          (case preparation_start_time w of
             None \<Rightarrow> Inl AttributeError
           | Some pt \<Rightarrow>
               if seconds (datetime_sub (time st) (time pt)) \<in> set prep_list
               then Inr (Some ''friendly'')
               else Inr (Some ''random'')))"

text \<open>
  \<^verbatim>\<open>ClanWar.status\<close>, with the nesting of the source: the destruction percentages are
  compared only inside the branch of equal stars, and both inner tests falling through
  reaches the final return of the branch.
\<close>

definition status :: "ClanWar \<Rightarrow> string" where
  "status w =
     (if state w = Some ''inWar'' then
        (if WarClan.stars (clan w) > WarClan.stars (opponent w) then ''winning''
         else if WarClan.stars (clan w) = WarClan.stars (opponent w) then
           (if WarClan.destruction (clan w) > WarClan.destruction (opponent w) then ''winning''
            else if WarClan.destruction (clan w) = WarClan.destruction (opponent w) then ''tied''
            else ''losing'')
         else ''losing'')
      else if state w = Some ''warEnded'' then
        (if WarClan.stars (clan w) > WarClan.stars (opponent w) then ''won''
         else if WarClan.stars (clan w) = WarClan.stars (opponent w) then
           (if WarClan.destruction (clan w) > WarClan.destruction (opponent w) then ''won''
            else if WarClan.destruction (clan w) = WarClan.destruction (opponent w) then ''tie''
            else ''lost'')
         else ''lost'')
      else '''')"

text \<open>\<^verbatim>\<open>ClanWar.is_cwl\<close>: \<^verbatim>\<open>self.type == "cwl"\<close>; an exception of \<^verbatim>\<open>type\<close> propagates.\<close>

definition is_cwl :: "ClanWar \<Rightarrow> error + bool" where
  "is_cwl w = (case type w of Inl e \<Rightarrow> Inl e | Inr t \<Rightarrow> Inr (t = Some ''cwl''))"

text \<open>\<^verbatim>\<open>ClanWar.get_member\<close>: the home side is searched first, then the opponent side.\<close>

definition get_member :: "ClanWar \<Rightarrow> string \<Rightarrow> ClanWarMember option" where
  "get_member w t =
     (case WarClan_get_member (clan w) t of
        Some home_member \<Rightarrow> Some home_member
      | None \<Rightarrow> WarClan_get_member (opponent w) t)"

text \<open>
  Modelled from the spec: \<^verbatim>\<open>utils.get(iterable, attr=val)\<close> (utils.py), a linear scan
  that returns the first element whose attribute equals the value, or \<^verbatim>\<open>None\<close>.
\<close>

fun get :: "'a list \<Rightarrow> ('a \<Rightarrow> 'b) \<Rightarrow> 'b \<Rightarrow> 'a option" where
  "get [] attr val = None"
| "get (x # xs) attr val = (if attr x = val then Some x else get xs attr val)"

definition get_attack :: "ClanWar \<Rightarrow> string \<Rightarrow> string \<Rightarrow> WarAttack option" where
  "get_attack w atk_tag def_tag =
     (case get_member w atk_tag of
        None \<Rightarrow> None
      | Some attacker \<Rightarrow>
          if length (ClanWarMember.attacks attacker) = 0 then None
          else get (ClanWarMember.attacks attacker) defender_tag def_tag)"

section \<open>WarAttack properties\<close>

text \<open>\<^verbatim>\<open>WarAttack.defender\<close>: \<^verbatim>\<open>self.war.get_member(self.defender_tag)\<close>.\<close>

definition defender :: "ClanWar \<Rightarrow> WarAttack \<Rightarrow> ClanWarMember option" where
  "defender w a = get_member w (defender_tag a)"

text \<open>
  Modelled from the spec: \<^verbatim>\<open>ClanWarMember.defenses\<close> (\<^verbatim>\<open>war_members.py\<close>), the member's
  full list of received attacks: all attacks of the war whose defender tag is the
  member's tag.
\<close>

definition defenses :: "ClanWar \<Rightarrow> ClanWarMember \<Rightarrow> WarAttack list" where
  "defenses w m =
     filter (\<lambda>a. defender_tag a = tag m)
       (WarClan.attacks (clan w) @ WarClan.attacks (opponent w))"

text \<open>
  \<^verbatim>\<open>WarAttack.is_fresh_attack\<close>. \<^verbatim>\<open>self.defender.defenses\<close> raises \<^verbatim>\<open>AttributeError\<close>
  when the defender is \<^verbatim>\<open>None\<close>, and \<^verbatim>\<open>min\<close> of an empty sequence raises
  \<^verbatim>\<open>ValueError\<close>.
\<close>

definition is_fresh_attack :: "ClanWar \<Rightarrow> WarAttack \<Rightarrow> error + bool" where
  "is_fresh_attack w a =
     (case defender w a of
        None \<Rightarrow> Inl AttributeError
      | Some d \<Rightarrow>
          if length (defenses w d) = 1 then Inr True
          else if defenses w d = [] then Inl ValueError
          else Inr (min_list (map order (defenses w d)) = order a))"

section \<open>ClanWarLeagueGroup\<close>

text \<open>
  The payload of a league group: a dict read with \<^verbatim>\<open>data.get\<close>, so every key may be
  absent. A round is itself a dict, read with \<^verbatim>\<open>n["warTags"]\<close>. The payload of one
  league clan is left abstract (\<open>'d\<close>).
\<close>

type_synonym round_json = "string \<rightharpoonup> string list"

record 'd group_json =
  json_state :: "string option"
  json_season :: "string option"
  json_rounds :: "round_json list option"
  json_clans :: "'d list option"

text \<open>
  The group object. \<open>priv_clans\<close> is \<^verbatim>\<open>self._clans\<close>; \<open>iter_clans\<close> is the generator
  \<^verbatim>\<open>self.__iter_clans\<close>, held as the payloads it has not yet consumed. \<open>constructed\<close>
  is a ghost counter of the \<^verbatim>\<open>ClanWarLeagueClan\<close> constructions performed so far.
\<close>

record ('d, 'c) ClanWarLeagueGroup =
  state :: "string option"
  season :: "string option"
  rounds :: "string list list"
  number_of_rounds :: nat
  priv_clans :: "'c list"
  iter_clans :: "'d list"
  constructed :: nat

text \<open>
  The list comprehension
  \<^verbatim>\<open>[n["warTags"] for n in rounds if n["warTags"][0] != "#0"]\<close>: a missing key raises
  \<^verbatim>\<open>KeyError\<close>, an empty tag list raises \<^verbatim>\<open>IndexError\<close>, and the first exception ends
  the comprehension.
\<close>

fun visible_rounds :: "round_json list \<Rightarrow> error + string list list" where
  "visible_rounds [] = Inr []"
| "visible_rounds (n # ns) =
     (case n ''warTags'' of
        None \<Rightarrow> Inl KeyError
      | Some [] \<Rightarrow> Inl IndexError
      | Some (t # ts) \<Rightarrow>
          if t \<noteq> ''#0'' then
            (case visible_rounds ns of Inl e \<Rightarrow> Inl e | Inr rs \<Rightarrow> Inr ((t # ts) # rs))
          else visible_rounds ns)"

text \<open>
  \<^verbatim>\<open>ClanWarLeagueGroup.__init__\<close> followed by \<^verbatim>\<open>_from_data\<close>. \<^verbatim>\<open>len(rounds)\<close> raises
  \<^verbatim>\<open>TypeError\<close> when the key \<^verbatim>\<open>rounds\<close> is absent. The generator over
  \<^verbatim>\<open>data.get("clans", [])\<close> is created unconsumed.
\<close>

definition from_data :: "'d group_json \<Rightarrow> error + ('d, 'c) ClanWarLeagueGroup" where
  "from_data data =
     (case json_rounds data of
        None \<Rightarrow> Inl TypeError
      | Some declared \<Rightarrow>
          (case visible_rounds declared of
             Inl e \<Rightarrow> Inl e
           | Inr rs \<Rightarrow>
               Inr \<lparr> state = json_state data,
                     season = json_season data,
                     rounds = rs,
                     number_of_rounds = length declared,
                     priv_clans = [],
                     iter_clans = (case json_clans data of None \<Rightarrow> [] | Some cs \<Rightarrow> cs),
                     constructed = 0 \<rparr>))"

text \<open>
  \<^verbatim>\<open>ClanWarLeagueGroup.clans\<close>, with the constructor \<^verbatim>\<open>ClanWarLeagueClan\<close>
  (\<^verbatim>\<open>war_clans.py\<close>) as the parameter \<open>mk\<close>. A non-empty cached list is returned as it is;
  otherwise \<^verbatim>\<open>list(self.__iter_clans)\<close> consumes what is left of the generator,
  constructing one clan per payload, and the result is stored. The function returns the
  list and the group after the access.
\<close>

definition clans ::
  "('d \<Rightarrow> 'c) \<Rightarrow> ('d, 'c) ClanWarLeagueGroup \<Rightarrow> 'c list \<times> ('d, 'c) ClanWarLeagueGroup" where
  "clans mk g =
     (if priv_clans g \<noteq> [] then (priv_clans g, g)
      else
        (map mk (iter_clans g),
         g\<lparr> priv_clans := map mk (iter_clans g),
            iter_clans := [],
            constructed := constructed g + length (iter_clans g) \<rparr>))"

text \<open>
  The same property with the identity of the list objects. A list object is held as its
  identity and its content. \<open>clans_id\<close> is the identity of the list that
  \<^verbatim>\<open>self._clans\<close> refers to, and \<open>fresh_id\<close> is the identity that the next list
  created receives. \<^verbatim>\<open>__init__\<close> creates the list \<^verbatim>\<open>[]\<close> for \<^verbatim>\<open>self._clans\<close>: it
  has the identity 0. The cached branch returns the object that \<^verbatim>\<open>self._clans\<close> refers
  to; \<^verbatim>\<open>list(...)\<close> always creates a new object, which is stored and returned.
\<close>

type_synonym 'c pylist = "nat \<times> 'c list"

record ('d, 'c) group_object =
  group_fields :: "('d, 'c) ClanWarLeagueGroup"
  clans_id :: nat
  fresh_id :: nat

definition new_group_object :: "('d, 'c) ClanWarLeagueGroup \<Rightarrow> ('d, 'c) group_object" where
  "new_group_object g = \<lparr> group_fields = g, clans_id = 0, fresh_id = 1 \<rparr>"

definition clans_at ::
  "('d \<Rightarrow> 'c) \<Rightarrow> ('d, 'c) group_object \<Rightarrow> 'c pylist \<times> ('d, 'c) group_object" where
  "clans_at mk s =
     (if priv_clans (group_fields s) \<noteq> [] then ((clans_id s, priv_clans (group_fields s)), s)
      else
        ((fresh_id s, map mk (iter_clans (group_fields s))),
         \<lparr> group_fields =
             (group_fields s)
               \<lparr> priv_clans := map mk (iter_clans (group_fields s)),
                 iter_clans := [],
                 constructed := constructed (group_fields s) + length (iter_clans (group_fields s)) \<rparr>,
           clans_id = fresh_id s,
           fresh_id = Suc (fresh_id s) \<rparr>))"

text \<open>Python list indexing \<^verbatim>\<open>xs[i]\<close>: a negative index counts from the end.\<close>

definition py_index :: "'a list \<Rightarrow> int \<Rightarrow> error + 'a" where
  "py_index xs i =
     (if 0 \<le> i \<and> i < int (length xs) then Inr (xs ! nat i)
      else if i < 0 \<and> - int (length xs) \<le> i then Inr (xs ! nat (int (length xs) + i))
      else Inl IndexError)"

text \<open>
  \<^verbatim>\<open>ClanWarLeagueGroup.get_wars\<close>. The returned \<^verbatim>\<open>LeagueWarIterator\<close> is held as
  the tags it will resolve and the cache flag; the client and the war constructor are
  passed through unchanged and are left out. The outermost iterable of a generator
  expression is evaluated at once, so \<^verbatim>\<open>self.rounds[round_index]\<close> raises at the call.
\<close>

record LeagueWarIterator =
  tags :: "string list"
  cache :: bool

definition get_wars ::
  "('d, 'c) ClanWarLeagueGroup \<Rightarrow> int \<Rightarrow> bool \<Rightarrow> error + LeagueWarIterator" where
  "get_wars g round_index use_cache =
     (let round_index' =
        (if length (rounds g) = 1 \<and> \<bar>round_index\<bar> > 1 then - 1 else round_index)
      in case py_index (rounds g) round_index' of
           Inl e \<Rightarrow> Inl e
         | Inr r \<Rightarrow> Inr \<lparr> tags = r, cache = use_cache \<rparr>)"

text \<open>The defaults of the signature: \<^verbatim>\<open>round_index = -2\<close>, \<^verbatim>\<open>cache = True\<close>.\<close>

definition get_wars_default :: "('d, 'c) ClanWarLeagueGroup \<Rightarrow> error + LeagueWarIterator" where
  "get_wars_default g = get_wars g (- 2) True"

section \<open>Notation for the two sides\<close>

abbreviation home_stars :: "ClanWar \<Rightarrow> int" where
  "home_stars w \<equiv> WarClan.stars (clan w)"

abbreviation away_stars :: "ClanWar \<Rightarrow> int" where
  "away_stars w \<equiv> WarClan.stars (opponent w)"

abbreviation home_destruction :: "ClanWar \<Rightarrow> real" where
  "home_destruction w \<equiv> WarClan.destruction (clan w)"

abbreviation away_destruction :: "ClanWar \<Rightarrow> real" where
  "away_destruction w \<equiv> WarClan.destruction (opponent w)"

abbreviation home_members :: "ClanWar \<Rightarrow> ClanWarMember list" where
  "home_members w \<equiv> WarClan.members (clan w)"

abbreviation away_members :: "ClanWar \<Rightarrow> ClanWarMember list" where
  "away_members w \<equiv> WarClan.members (opponent w)"

abbreviation home_attacks :: "ClanWar \<Rightarrow> WarAttack list" where
  "home_attacks w \<equiv> WarClan.attacks (clan w)"

abbreviation away_attacks :: "ClanWar \<Rightarrow> WarAttack list" where
  "away_attacks w \<equiv> WarClan.attacks (opponent w)"

section \<open>Example snapshots\<close>

text \<open>
  A small war: two home members, two opponent members, three attacks with the orders
  1, 2 and 3. Both rosters are given in descending map position.
\<close>

definition attack1 :: WarAttack where
  "attack1 = \<lparr> WarAttack.stars = 2, destruction = 70, order = 1,
                attacker_tag = ''#H1'', defender_tag = ''#O1'' \<rparr>"

definition attack2 :: WarAttack where
  "attack2 = \<lparr> WarAttack.stars = 1, destruction = 45, order = 2,
                attacker_tag = ''#O1'', defender_tag = ''#H1'' \<rparr>"

definition attack3 :: WarAttack where
  "attack3 = \<lparr> WarAttack.stars = 3, destruction = 100, order = 3,
                attacker_tag = ''#H2'', defender_tag = ''#O1'' \<rparr>"

definition member_h1 :: ClanWarMember where
  "member_h1 = \<lparr> tag = ''#H1'', map_position = 1, is_opponent = False, attacks = [attack1] \<rparr>"

definition member_h2 :: ClanWarMember where
  "member_h2 = \<lparr> tag = ''#H2'', map_position = 2, is_opponent = False, attacks = [attack3] \<rparr>"

definition member_o1 :: ClanWarMember where
  "member_o1 = \<lparr> tag = ''#O1'', map_position = 1, is_opponent = True, attacks = [attack2] \<rparr>"

definition member_o2 :: ClanWarMember where
  "member_o2 = \<lparr> tag = ''#O2'', map_position = 2, is_opponent = True, attacks = [] \<rparr>"

definition example_home :: WarClan where
  "example_home = \<lparr> WarClan.stars = 3, destruction = 50, attacks = [attack1, attack3],
                     members = [member_h2, member_h1] \<rparr>"

definition example_away :: WarClan where
  "example_away = \<lparr> WarClan.stars = 1, destruction = 45 / 2, attacks = [attack2],
                     members = [member_o2, member_o1] \<rparr>"

text \<open>Battle day starts one hour (3600 seconds) after preparation day.\<close>

definition example_war :: ClanWar where
  "example_war =
     \<lparr> ClanWar.state = Some ''inWar'',
       preparation_start_time = Some \<lparr> time = 1000000 * 1589000000 \<rparr>,
       start_time = Some \<lparr> time = 1000000 * 1589003600 \<rparr>,
       end_time = Some \<lparr> time = 1000000 * 1589090000 \<rparr>,
       team_size = 2,
       war_tag = None,
       clan = example_home,
       opponent = example_away \<rparr>"

text \<open>A war that is only a state and a score: no timestamps, no tag, empty rosters.\<close>

definition score_side :: "int \<Rightarrow> real \<Rightarrow> WarClan" where
  "score_side s d = \<lparr> WarClan.stars = s, destruction = d, attacks = [], members = [] \<rparr>"

definition score_war :: "string option \<Rightarrow> WarClan \<Rightarrow> WarClan \<Rightarrow> ClanWar" where
  "score_war st home away =
     \<lparr> ClanWar.state = st, preparation_start_time = None, start_time = None,
       end_time = None, team_size = 0, war_tag = None, clan = home, opponent = away \<rparr>"

text \<open>One member on each side, both at map position 1.\<close>

definition duel_war :: ClanWar where
  "duel_war =
     example_war
       \<lparr> clan := example_home \<lparr> members := [member_h1] \<rparr>,
         opponent := example_away \<lparr> members := [member_o1] \<rparr> \<rparr>"

text \<open>A war without a tag whose battle day starts exactly 24 hours after preparation day.\<close>

definition war_24h :: ClanWar where
  "war_24h =
     example_war
       \<lparr> preparation_start_time := Some \<lparr> time = 1000000 * 1589000000 \<rparr>,
         start_time := Some \<lparr> time = 1000000 * 1589086400 \<rparr> \<rparr>"

text \<open>The example war with an empty tag, and with a league tag.\<close>

definition war_empty_tag :: ClanWar where
  "war_empty_tag = example_war \<lparr> war_tag := Some '''' \<rparr>"

definition war_league :: ClanWar where
  "war_league = example_war \<lparr> war_tag := Some ''#2QJ'' \<rparr>"

text \<open>
  A league group payload with two placeholder rounds and one real round, and two clans
  given by their tags; the stand-in constructor pairs a tag with its length.
\<close>

definition example_group_json :: "string group_json" where
  "example_group_json =
     \<lparr> json_state = Some ''inWar'',
       json_season = Some ''2020-05'',
       json_rounds = Some [[''warTags'' \<mapsto> [''#0'']], [''warTags'' \<mapsto> [''#0'']],
                           [''warTags'' \<mapsto> [''#ABC'', ''#DEF'']]],
       json_clans = Some [''#C1'', ''#C22''] \<rparr>"

definition example_mk :: "string \<Rightarrow> string \<times> nat" where
  "example_mk t = (t, length t)"

definition example_group :: "(string, string \<times> nat) ClanWarLeagueGroup" where
  "example_group =
     \<lparr> ClanWarLeagueGroup.state = Some ''inWar'', season = Some ''2020-05'',
       rounds = [[''#ABC'', ''#DEF'']], number_of_rounds = 3,
       priv_clans = [], iter_clans = [''#C1'', ''#C22''], constructed = 0 \<rparr>"

definition example_group2 :: "(string, string \<times> nat) ClanWarLeagueGroup" where
  "example_group2 = example_group \<lparr> rounds := [[''#ABC'', ''#DEF''], [''#GHI'', ''#JKL'']] \<rparr>"

text \<open>The same payload without clans, and the group it constructs.\<close>

definition empty_group_json :: "string group_json" where
  "empty_group_json = example_group_json \<lparr> json_clans := Some [] \<rparr>"

definition empty_group :: "(string, string \<times> nat) ClanWarLeagueGroup" where
  "empty_group = example_group \<lparr> iter_clans := [] \<rparr>"

text \<open>A second stand-in constructor, different from the first on every payload.\<close>

definition other_mk :: "string \<Rightarrow> string \<times> nat" where
  "other_mk t = (t, Suc (length t))"

section \<open>The war status\<close>

lemma status_inWar:
  "ClanWar.state w = Some ''inWar'' \<Longrightarrow>
   status w =
     (if (away_stars w, away_destruction w) < (home_stars w, home_destruction w) then ''winning''
      else if (home_stars w, home_destruction w) = (away_stars w, away_destruction w) then ''tied''
      else ''losing'')"
  by (simp add: status_def less_prod_def)

lemma status_warEnded:
  "ClanWar.state w = Some ''warEnded'' \<Longrightarrow>
   status w =
     (if (away_stars w, away_destruction w) < (home_stars w, home_destruction w) then ''won''
      else if (home_stars w, home_destruction w) = (away_stars w, away_destruction w) then ''tie''
      else ''lost'')"
  by (simp add: status_def less_prod_def)

lemma status_other:
  "ClanWar.state w \<noteq> Some ''inWar'' \<Longrightarrow> ClanWar.state w \<noteq> Some ''warEnded'' \<Longrightarrow>
   status w = ''''"
  by (simp add: status_def)

text \<open>
  C1. In state \<^verbatim>\<open>inWar\<close> the status is one of winning, tied, losing, in state
  \<^verbatim>\<open>warEnded\<close> one of won, tie, lost, and the empty string for every other state
  (\<^verbatim>\<open>None\<close> included). In both branches: more home stars gives winning/won; equal stars
  and more home destruction gives winning/won; equal stars and equal destruction gives
  tied/tie; everything else gives losing/lost. The last three conjuncts say the same with
  the lexicographic order on pairs (stars, destruction): the home side is labelled ahead,
  level or behind exactly as its pair is greater than, equal to or less than the
  opponent's.
\<close>

theorem status_lexicographic:
  "(ClanWar.state w = Some ''inWar'' \<longrightarrow>
      status w =
        (if away_stars w < home_stars w then ''winning''
         else if home_stars w = away_stars w \<and> away_destruction w < home_destruction w
           then ''winning''
         else if home_stars w = away_stars w \<and> home_destruction w = away_destruction w
           then ''tied''
         else ''losing''))
   \<and> (ClanWar.state w = Some ''warEnded'' \<longrightarrow>
      status w =
        (if away_stars w < home_stars w then ''won''
         else if home_stars w = away_stars w \<and> away_destruction w < home_destruction w
           then ''won''
         else if home_stars w = away_stars w \<and> home_destruction w = away_destruction w
           then ''tie''
         else ''lost''))
   \<and> (ClanWar.state w \<noteq> Some ''inWar'' \<and> ClanWar.state w \<noteq> Some ''warEnded'' \<longrightarrow>
      status w = '''')
   \<and> (status w = ''winning'' \<or> status w = ''won'' \<longleftrightarrow>
        (ClanWar.state w = Some ''inWar'' \<or> ClanWar.state w = Some ''warEnded'') \<and>
        (away_stars w, away_destruction w) < (home_stars w, home_destruction w))
   \<and> (status w = ''tied'' \<or> status w = ''tie'' \<longleftrightarrow>
        (ClanWar.state w = Some ''inWar'' \<or> ClanWar.state w = Some ''warEnded'') \<and>
        (home_stars w, home_destruction w) = (away_stars w, away_destruction w))
   \<and> (status w = ''losing'' \<or> status w = ''lost'' \<longleftrightarrow>
        (ClanWar.state w = Some ''inWar'' \<or> ClanWar.state w = Some ''warEnded'') \<and>
        (home_stars w, home_destruction w) < (away_stars w, away_destruction w))"
proof -
  consider (inWar) "ClanWar.state w = Some ''inWar''"
    | (warEnded) "ClanWar.state w = Some ''warEnded''"
    | (other) "ClanWar.state w \<noteq> Some ''inWar''" "ClanWar.state w \<noteq> Some ''warEnded''"
    by blast
  then show ?thesis
  proof cases
    case inWar
    then have ne: "ClanWar.state w \<noteq> Some ''warEnded''" by simp
    show ?thesis
      unfolding status_inWar [OF inWar] using inWar ne
      by (simp add: less_prod_def) linarith
  next
    case warEnded
    then have ne: "ClanWar.state w \<noteq> Some ''inWar''" by simp
    show ?thesis
      unfolding status_warEnded [OF warEnded] using warEnded ne
      by (simp add: less_prod_def) linarith
  next
    case other
    then show ?thesis
      unfolding status_other [OF other] by simp
  qed
qed

theorem status_lexicographic_witness:
  "status (score_war (Some ''inWar'') (score_side 3 40) (score_side 2 90)) = ''winning''
   \<and> status (score_war (Some ''inWar'') (score_side 2 50) (score_side 2 50)) = ''tied''
   \<and> status (score_war (Some ''inWar'') (score_side 2 50) (score_side 2 (499 / 10))) = ''winning''
   \<and> status (score_war (Some ''inWar'') (score_side 2 50) (score_side 2 (501 / 10))) = ''losing''
   \<and> status (score_war (Some ''warEnded'') (score_side 3 40) (score_side 2 90)) = ''won''
   \<and> status (score_war (Some ''warEnded'') (score_side 2 50) (score_side 2 50)) = ''tie''
   \<and> status (score_war (Some ''warEnded'') (score_side 2 50) (score_side 2 (499 / 10))) = ''won''
   \<and> status (score_war (Some ''warEnded'') (score_side 1 99) (score_side 2 10)) = ''lost''
   \<and> status (score_war (Some ''preparation'') (score_side 3 40) (score_side 2 90)) = ''''
   \<and> status (score_war None (score_side 3 40) (score_side 2 90)) = ''''"
  using status_lexicographic [of "score_war (Some ''inWar'') (score_side 3 40) (score_side 2 90)"]
    status_lexicographic [of "score_war (Some ''inWar'') (score_side 2 50) (score_side 2 50)"]
    status_lexicographic [of "score_war (Some ''inWar'') (score_side 2 50) (score_side 2 (499 / 10))"]
    status_lexicographic [of "score_war (Some ''inWar'') (score_side 2 50) (score_side 2 (501 / 10))"]
    status_lexicographic [of "score_war (Some ''warEnded'') (score_side 3 40) (score_side 2 90)"]
    status_lexicographic [of "score_war (Some ''warEnded'') (score_side 2 50) (score_side 2 50)"]
    status_lexicographic [of "score_war (Some ''warEnded'') (score_side 2 50) (score_side 2 (499 / 10))"]
    status_lexicographic [of "score_war (Some ''warEnded'') (score_side 1 99) (score_side 2 10)"]
    status_lexicographic [of "score_war (Some ''preparation'') (score_side 3 40) (score_side 2 90)"]
    status_lexicographic [of "score_war None (score_side 3 40) (score_side 2 90)"]
  by (simp add: score_war_def score_side_def)

section \<open>The members view\<close>

lemma insort_key_flag_all:
  "\<forall>y\<in>set B. b y = b x \<Longrightarrow>
   insort_key (\<lambda>x. (b x, k x)) x B = insort_key k x B"
  for k :: "'a \<Rightarrow> 'k::linorder"
  by (induction B) (simp_all add: less_eq_prod_def)

lemma insort_key_flag_right:
  "b x \<Longrightarrow> \<forall>y\<in>set A. \<not> b y \<Longrightarrow> \<forall>y\<in>set B. b y \<Longrightarrow>
   insort_key (\<lambda>x. (b x, k x)) x (A @ B) = A @ insort_key k x B"
  for k :: "'a \<Rightarrow> 'k::linorder"
proof (induction A)
  case Nil
  then show ?case by (simp add: insort_key_flag_all)
next
  case (Cons y A)
  then show ?case by (simp add: less_eq_prod_def)
qed

lemma insort_key_flag_left:
  "\<not> b x \<Longrightarrow> \<forall>y\<in>set A. \<not> b y \<Longrightarrow> \<forall>y\<in>set B. b y \<Longrightarrow>
   insort_key (\<lambda>x. (b x, k x)) x (A @ B) = insort_key k x A @ B"
  for k :: "'a \<Rightarrow> 'k::linorder"
proof (induction A)
  case Nil
  then show ?case by (cases B) (simp_all add: less_eq_prod_def)
next
  case (Cons y A)
  then show ?case by (simp add: less_eq_prod_def)
qed

text \<open>
  Sorting by a pair (flag, key) puts the elements whose flag is false first and those
  whose flag is true last, each group sorted stably by the key alone.
\<close>

lemma sort_key_flag:
  "sort_key (\<lambda>x. (b x, k x)) xs =
     sort_key k (filter (\<lambda>x. \<not> b x) xs) @ sort_key k (filter b xs)"
  for k :: "'a \<Rightarrow> 'k::linorder"
proof (induction xs)
  case Nil
  show ?case by simp
next
  case (Cons x xs)
  let ?A = "sort_key k (filter (\<lambda>x. \<not> b x) xs)"
  let ?B = "sort_key k (filter b xs)"
  have A: "\<forall>y\<in>set ?A. \<not> b y" and B: "\<forall>y\<in>set ?B. b y" by simp_all
  have step: "sort_key (\<lambda>x. (b x, k x)) (x # xs) = insort_key (\<lambda>x. (b x, k x)) x (?A @ ?B)"
    by (simp only: sort_key_simps Cons.IH)
  show ?case
  proof (cases "b x")
    case True
    have "insort_key (\<lambda>x. (b x, k x)) x (?A @ ?B) = ?A @ insort_key k x ?B"
      using True A B by (rule insort_key_flag_right)
    with step True show ?thesis by simp
  next
    case False
    have "insort_key (\<lambda>x. (b x, k x)) x (?A @ ?B) = insort_key k x ?A @ ?B"
      using False A B by (rule insort_key_flag_left)
    with step False show ?thesis by simp
  qed
qed

lemma members_by_flag:
  "members w =
     sort_key map_position (filter is_opponent (home_members w @ away_members w)) @
     sort_key map_position (filter (\<lambda>m. \<not> is_opponent m) (home_members w @ away_members w))"
  by (simp only: members_def sort_key_flag [of "\<lambda>x. \<not> is_opponent x" map_position] not_not)

text \<open>
  C2 as stated fails on the code. With one home member and one opponent member, both at
  map position 1, the view lists the opponent member first: the key of a home member is \<open>(True, 1)\<close>, the key of an
  opponent member is \<open>(False, 1)\<close>, and \<^verbatim>\<open>False\<close> sorts before \<^verbatim>\<open>True\<close>. So the view
  does not place the home side before the opponent side.
\<close>

theorem members_home_first_counterexample:
  "home_members duel_war = [member_h1] \<and> away_members duel_war = [member_o1]
   \<and> \<not> is_opponent member_h1 \<and> is_opponent member_o1
   \<and> members duel_war = [member_o1, member_h1]
   \<and> members duel_war \<noteq> [member_h1, member_o1]"
  by (simp add: members_def duel_war_def example_war_def example_home_def example_away_def
      member_h1_def member_o1_def less_eq_prod_def)

text \<open>
  C2, as the code has it. When the members of the home side report \<^verbatim>\<open>is_opponent\<close>
  false and those of the opponent side report it true, \<^verbatim>\<open>ClanWar.members\<close> lists all
  opponent-side members before all home-side members; within each side the members are
  in ascending order of map position, and members with equal map position keep the order
  of their roster.
\<close>

theorem members_opponent_first:
  assumes "\<forall>m\<in>set (home_members w). \<not> is_opponent m"
    and "\<forall>m\<in>set (away_members w). is_opponent m"
  shows "members w =
     sort_key map_position (away_members w) @ sort_key map_position (home_members w)"
proof -
  have "filter is_opponent (home_members w) = []"
    using assms(1) by (simp add: filter_empty_conv)
  moreover have "filter is_opponent (away_members w) = away_members w"
    using assms(2) by (simp add: filter_id_conv)
  moreover have "filter (\<lambda>m. \<not> is_opponent m) (home_members w) = home_members w"
    using assms(1) by (simp add: filter_id_conv)
  moreover have "filter (\<lambda>m. \<not> is_opponent m) (away_members w) = []"
    using assms(2) by (simp add: filter_empty_conv)
  ultimately show ?thesis
    by (simp add: members_by_flag)
qed

theorem members_opponent_first_witness:
  "list_all (\<lambda>m. \<not> is_opponent m) (home_members example_war)
   \<and> list_all is_opponent (away_members example_war)
   \<and> home_members example_war = [member_h2, member_h1]
   \<and> away_members example_war = [member_o2, member_o1]
   \<and> members example_war = [member_o1, member_o2, member_h1, member_h2]"
  using members_opponent_first [of example_war]
  by (simp add: example_war_def example_home_def example_away_def
      member_h1_def member_h2_def member_o1_def member_o2_def)

section \<open>The attacks view\<close>

lemma distinct_map_sort_key:
  "distinct (map f (sort_key f xs)) = distinct (map f xs)"
  by (induction xs) (auto simp: distinct_insort_key)

text \<open>
  C5. When the attack orders are unique across both sides, \<^verbatim>\<open>ClanWar.attacks\<close> is
  sorted strictly descending by order, its length is the number of home-side attacks plus
  the number of opponent-side attacks, and it holds exactly the attacks of the two sides.
\<close>

theorem attacks_sorted_descending:
  assumes "distinct (map order (home_attacks w @ away_attacks w))"
  shows "sorted_wrt (\<lambda>a b. order b < order a) (attacks w)
       \<and> length (attacks w) = length (home_attacks w) + length (away_attacks w)
       \<and> set (attacks w) = set (home_attacks w) \<union> set (away_attacks w)"
proof -
  let ?xs = "home_attacks w @ away_attacks w"
  let ?ys = "sort_key order (rev ?xs)"
  have "distinct (map order (rev ?xs))"
    using assms by (simp only: rev_map [symmetric] distinct_rev)
  then have "distinct (map order ?ys)"
    by (simp only: distinct_map_sort_key)
  moreover have "sorted (map order ?ys)" by (rule sorted_sort_key)
  ultimately have "sorted_wrt (<) (map order ?ys)" by (simp only: strict_sorted_iff)
  then have "sorted_wrt (\<lambda>a b. order a < order b) ?ys" by (simp only: sorted_wrt_map)
  then have "sorted_wrt (\<lambda>a b. order b < order a) (rev ?ys)" by (simp only: sorted_wrt_rev)
  then have 1: "sorted_wrt (\<lambda>a b. order b < order a) (attacks w)" by (simp only: attacks_def)
  have 2: "length (attacks w) = length (home_attacks w) + length (away_attacks w)"
    by (simp add: attacks_def)
  have 3: "set (attacks w) = set (home_attacks w) \<union> set (away_attacks w)"
    by (auto simp: attacks_def)
  from 1 2 3 show ?thesis by blast
qed

theorem attacks_sorted_descending_witness:
  "distinct (map order (home_attacks example_war @ away_attacks example_war))
   \<and> sorted_wrt (\<lambda>a b. order b < order a) (attacks example_war)
   \<and> length (attacks example_war) = 3
   \<and> set (attacks example_war) = {attack1, attack2, attack3}"
  using attacks_sorted_descending [of example_war]
  by (auto simp: example_war_def example_home_def example_away_def
      attack1_def attack2_def attack3_def)

section \<open>The war type\<close>

lemma seconds_datetime_sub:
  "seconds (datetime_sub a b) = ((a - b) div 1000000) mod 86400"
  by (simp add: datetime_sub_def timedelta_of_microseconds_def)

lemma in_prep_list:
  "s \<in> set prep_list \<longleftrightarrow>
     s = 900 \<or> s = 1800 \<or> s = 3600 \<or> s = 7200 \<or> s = 14400 \<or> s = 21600 \<or> s = 28800 \<or>
     s = 43200 \<or> s = 57600 \<or> s = 72000 \<or> s = 86400"
  by (simp add: prep_list_def)

text \<open>
  The seconds component of a timedelta is below 86400, so the last entry of the list,
  \<^verbatim>\<open>24 * 60 * 60\<close>, is never met.
\<close>

lemma seconds_below_day: "seconds (datetime_sub a b) < 86400"
  by (simp add: seconds_datetime_sub)

text \<open>What \<^verbatim>\<open>ClanWar.type\<close> returns, branch by branch.\<close>

lemma type_with_tag: "truthy (war_tag w) \<Longrightarrow> type w = Inr (Some ''cwl'')"
  by (simp add: type_def)

lemma type_without_start:
  "\<not> truthy (war_tag w) \<Longrightarrow> start_time w = None \<Longrightarrow> type w = Inr None"
  by (simp add: type_def)

lemma type_by_seconds_component:
  "\<not> truthy (war_tag w) \<Longrightarrow> start_time w = Some st \<Longrightarrow> preparation_start_time w = Some pt \<Longrightarrow>
   type w =
     Inr (Some (if ((time st - time pt) div 1000000) mod 86400
                     \<in> {900, 1800, 3600, 7200, 14400, 21600, 28800, 43200, 57600, 72000}
                then ''friendly'' else ''random''))"
  using seconds_below_day [of "time st" "time pt"]
  by (simp add: type_def in_prep_list) (simp add: seconds_datetime_sub)

text \<open>
  C3. The docstring of \<^verbatim>\<open>ClanWar.type\<close> and the last entry of its list name a
  preparation time of 24 hours as a friendly war. For a war without a tag whose battle day
  starts exactly 24 hours after preparation day, the difference of the two datetimes is the
  timedelta of 1 day, 0 seconds, and the code compares its seconds component, 0, with the
  list: the result is \<^verbatim>\<open>"random"\<close>, not \<^verbatim>\<open>"friendly"\<close>.
\<close>

theorem type_24h_window:
  "war_tag war_24h = None
   \<and> map_option time (start_time war_24h) = Some (1000000 * 1589086400)
   \<and> map_option time (preparation_start_time war_24h) = Some (1000000 * 1589000000)
   \<and> (1000000 * 1589086400 - 1000000 * 1589000000 :: int) = 1000000 * 86400
   \<and> 86400 \<in> set prep_list
   \<and> datetime_sub (1000000 * 1589086400) (1000000 * 1589000000)
       = \<lparr> days = 1, seconds = 0, microseconds = 0 \<rparr>
   \<and> type war_24h = Inr (Some ''random'')"
  by (simp add: type_def war_24h_def example_war_def truthy_def seconds_datetime_sub in_prep_list
      datetime_sub_def timedelta_of_microseconds_def)

lemma type_no_tag:
  "\<not> truthy (war_tag w) \<Longrightarrow> type w = type (w\<lparr> war_tag := None \<rparr>)"
  by (simp add: type_def truthy_def split: option.splits)

lemma type_cwl_iff: "type w = Inr (Some ''cwl'') \<longleftrightarrow> truthy (war_tag w)"
  by (simp add: type_def split: option.splits)

lemma truthy_iff: "truthy s \<longleftrightarrow> (\<exists>t. s = Some t \<and> t \<noteq> [])"
  by (cases s) (simp_all add: truthy_def)

lemma is_cwl_True_iff: "is_cwl w = Inr True \<longleftrightarrow> truthy (war_tag w)"
  by (simp add: is_cwl_def type_cwl_iff [symmetric] split: sum.splits)

lemma type_total:
  "start_time w \<noteq> None \<longrightarrow> preparation_start_time w \<noteq> None \<Longrightarrow> \<exists>t. type w = Inr t"
  by (auto simp: type_def split: option.splits)

text \<open>
  C10. A war whose tag is the empty string is not typed \<^verbatim>\<open>"cwl"\<close>: its type is the
  type of the same war without a tag, given by the timestamp rules, and \<^verbatim>\<open>is_cwl\<close> does
  not return true. \<^verbatim>\<open>is_cwl\<close> returns true exactly when the tag is a non-empty string.
  When the preparation start time is present whenever the start time is, \<^verbatim>\<open>is_cwl\<close>
  raises nothing and returns whether the tag is a non-empty string, so it is false for
  the empty tag.
\<close>

theorem is_cwl_nonempty_tag:
  "(war_tag w = Some '''' \<longrightarrow>
      type w = type (w\<lparr> war_tag := None \<rparr>) \<and> type w \<noteq> Inr (Some ''cwl'') \<and> is_cwl w \<noteq> Inr True)
   \<and> (is_cwl w = Inr True \<longleftrightarrow> (\<exists>t. war_tag w = Some t \<and> t \<noteq> ''''))
   \<and> ((start_time w \<noteq> None \<longrightarrow> preparation_start_time w \<noteq> None) \<longrightarrow>
        is_cwl w = Inr (\<exists>t. war_tag w = Some t \<and> t \<noteq> ''''))"
proof (intro conjI impI)
  assume e: "war_tag w = Some ''''"
  then have nt: "\<not> truthy (war_tag w)" by (simp add: truthy_def)
  show "type w = type (w\<lparr> war_tag := None \<rparr>)" using nt by (rule type_no_tag)
  show "type w \<noteq> Inr (Some ''cwl'')" using nt by (simp add: type_cwl_iff)
  show "is_cwl w \<noteq> Inr True" using nt by (simp add: is_cwl_True_iff)
next
  show "is_cwl w = Inr True \<longleftrightarrow> (\<exists>t. war_tag w = Some t \<and> t \<noteq> '''')"
    by (simp only: is_cwl_True_iff truthy_iff)
next
  assume "start_time w \<noteq> None \<longrightarrow> preparation_start_time w \<noteq> None"
  then obtain t where t: "type w = Inr t" using type_total by blast
  have "(t = Some ''cwl'') = truthy (war_tag w)"
    using type_cwl_iff [of w] t by simp
  then show "is_cwl w = Inr (\<exists>t. war_tag w = Some t \<and> t \<noteq> '''')"
    using t by (simp add: is_cwl_def truthy_iff)
qed

lemma type_example_war: "type example_war = Inr (Some ''friendly'')"
  by (simp add: type_def example_war_def truthy_def seconds_datetime_sub in_prep_list)

theorem is_cwl_nonempty_tag_witness:
  "war_tag war_empty_tag = Some []
   \<and> type war_empty_tag = Inr (Some ''friendly'')
   \<and> type war_empty_tag \<noteq> Inr (Some ''cwl'')
   \<and> is_cwl war_empty_tag = Inr False
   \<and> war_tag war_league = Some ''#2QJ''
   \<and> is_cwl war_league = Inr True"
proof -
  have e: "war_tag war_empty_tag = Some []"
    by (simp add: war_empty_tag_def)
  have n: "war_empty_tag\<lparr> war_tag := None \<rparr> = example_war"
    by (simp add: war_empty_tag_def example_war_def)
  have wf: "start_time war_empty_tag \<noteq> None \<longrightarrow> preparation_start_time war_empty_tag \<noteq> None"
    by (simp add: war_empty_tag_def example_war_def)
  have l: "war_tag war_league = Some ''#2QJ''"
    by (simp add: war_league_def)
  note empty = is_cwl_nonempty_tag [of war_empty_tag]
  note league = is_cwl_nonempty_tag [of war_league]
  from empty e have "type war_empty_tag = type (war_empty_tag\<lparr> war_tag := None \<rparr>)"
    by blast
  then have 1: "type war_empty_tag = Inr (Some ''friendly'')" by (simp only: n type_example_war)
  from empty e have 2: "type war_empty_tag \<noteq> Inr (Some ''cwl'')" by blast
  from empty wf have "is_cwl war_empty_tag = Inr (\<exists>t. war_tag war_empty_tag = Some t \<and> t \<noteq> [])"
    by blast
  then have 3: "is_cwl war_empty_tag = Inr False" by (simp add: e)
  from league l have 4: "is_cwl war_league = Inr True" by simp
  from e 1 2 3 l 4 show ?thesis by blast
qed

section \<open>Looking up an attack\<close>

lemma get_eq_find: "get xs attr v = find (\<lambda>x. attr x = v) xs"
  by (induction xs) simp_all

lemma get_None_iff: "get xs attr v = None \<longleftrightarrow> (\<forall>x\<in>set xs. attr x \<noteq> v)"
  by (auto simp: get_eq_find find_None_iff)

lemma get_Some_iff:
  "get xs attr v = Some x \<longleftrightarrow>
     (\<exists>i<length xs. xs ! i = x \<and> attr x = v \<and> (\<forall>j<i. attr (xs ! j) \<noteq> v))"
  by (auto simp: get_eq_find find_Some_iff)

text \<open>
  C9. \<^verbatim>\<open>get_attack\<close> returns \<^verbatim>\<open>None\<close> when the attacker tag resolves to no member, and
  when the resolved attacker has made no attack. Otherwise it returns the first attack of
  that attacker whose defender tag matches: the attack at the least index with that
  defender tag; and \<^verbatim>\<open>None\<close> exactly when no attack of the attacker matches. The function
  has no exception branch.
\<close>

theorem get_attack_first_match:
  "(get_member w a = None \<longrightarrow> get_attack w a d = None)
   \<and> (\<forall>m. get_member w a = Some m \<longrightarrow>
        (ClanWarMember.attacks m = [] \<longrightarrow> get_attack w a d = None) \<and>
        (get_attack w a d = None \<longleftrightarrow>
           (\<forall>x\<in>set (ClanWarMember.attacks m). defender_tag x \<noteq> d)) \<and>
        (\<forall>x. get_attack w a d = Some x \<longleftrightarrow>
           (\<exists>i<length (ClanWarMember.attacks m).
              ClanWarMember.attacks m ! i = x \<and> defender_tag x = d \<and>
              (\<forall>j<i. defender_tag (ClanWarMember.attacks m ! j) \<noteq> d))))"
proof (intro conjI allI impI)
  assume "get_member w a = None"
  then show "get_attack w a d = None" by (simp add: get_attack_def)
next
  fix m assume m: "get_member w a = Some m"
  have eq: "get_attack w a d = get (ClanWarMember.attacks m) defender_tag d"
    using m by (cases "ClanWarMember.attacks m") (simp_all add: get_attack_def)
  { assume "ClanWarMember.attacks m = []"
    then show "get_attack w a d = None" by (simp add: eq) }
  show "get_attack w a d = None \<longleftrightarrow> (\<forall>x\<in>set (ClanWarMember.attacks m). defender_tag x \<noteq> d)"
    by (simp only: eq get_None_iff)
  fix x
  show "get_attack w a d = Some x \<longleftrightarrow>
           (\<exists>i<length (ClanWarMember.attacks m).
              ClanWarMember.attacks m ! i = x \<and> defender_tag x = d \<and>
              (\<forall>j<i. defender_tag (ClanWarMember.attacks m ! j) \<noteq> d))"
    by (simp only: eq get_Some_iff)
qed

lemma get_member_example:
  "get_member example_war ''#H1'' = Some member_h1"
  "get_member example_war ''#O1'' = Some member_o1"
  "get_member example_war ''#O2'' = Some member_o2"
  "get_member example_war ''#ZZ'' = None"
  by (simp_all add: get_member_def WarClan_get_member_def example_war_def example_home_def
      example_away_def member_h1_def member_h2_def member_o1_def member_o2_def)

theorem get_attack_first_match_witness:
  "get_member example_war ''#ZZ'' = None
   \<and> get_attack example_war ''#ZZ'' ''#O1'' = None
   \<and> get_member example_war ''#O2'' = Some member_o2
   \<and> ClanWarMember.attacks member_o2 = []
   \<and> get_attack example_war ''#O2'' ''#H1'' = None
   \<and> get_member example_war ''#H1'' = Some member_h1
   \<and> get_attack example_war ''#H1'' ''#O1'' = Some attack1
   \<and> get_attack example_war ''#H1'' ''#O2'' = None"
proof -
  note zz = get_attack_first_match [of example_war "''#ZZ''" "''#O1''"]
  note o2 = get_attack_first_match [of example_war "''#O2''" "''#H1''"]
  note h1 = get_attack_first_match [of example_war "''#H1''" "''#O1''"]
  note h1' = get_attack_first_match [of example_war "''#H1''" "''#O2''"]
  have e: "ClanWarMember.attacks member_o2 = []" by (simp add: member_o2_def)
  have a: "ClanWarMember.attacks member_h1 = [attack1]" by (simp add: member_h1_def)
  have d: "defender_tag attack1 = ''#O1''" by (simp add: attack1_def)
  from zz have 1: "get_attack example_war ''#ZZ'' ''#O1'' = None"
    by (simp add: get_member_example)
  from o2 e have 2: "get_attack example_war ''#O2'' ''#H1'' = None"
    by (simp add: get_member_example)
  from h1 have 3: "get_attack example_war ''#H1'' ''#O1'' = Some attack1"
    by (simp add: get_member_example a d)
  from h1' have 4: "get_attack example_war ''#H1'' ''#O2'' = None"
    by (simp add: get_member_example a d)
  from 1 2 3 4 e show ?thesis by (simp add: get_member_example)
qed

section \<open>Fresh attacks\<close>

lemma WarClan_get_member_tag: "WarClan_get_member c t = Some m \<Longrightarrow> tag m = t"
  by (auto simp: WarClan_get_member_def find_Some_iff)

lemma get_member_tag: "get_member w t = Some m \<Longrightarrow> tag m = t"
  by (auto simp: get_member_def split: option.splits dest: WarClan_get_member_tag)

lemma defenses_defender_tag: "x \<in> set (defenses w d) \<Longrightarrow> defender_tag x = tag d"
  by (auto simp: defenses_def)

lemma is_fresh_attack_many:
  assumes "defender w a = Some d" and "1 < length (defenses w d)"
  shows "is_fresh_attack w a = Inr (order a = Min (order ` set (defenses w d)))"
proof -
  from assms(2) have ne: "defenses w d \<noteq> []" and n1: "length (defenses w d) \<noteq> 1" by auto
  then have "min_list (map order (defenses w d)) = Min (order ` set (defenses w d))"
    by (simp add: min_list_Min)
  with assms(1) ne n1 show ?thesis
    by (auto simp: is_fresh_attack_def)
qed

text \<open>
  C4. For an attack whose defender resolves: if the defender has exactly one recorded
  defense, \<^verbatim>\<open>is_fresh_attack\<close> is true; if the defender has several, it is true exactly
  when the order of the attack is the minimum order among the defenses of that defender;
  and when, in addition, the orders of those defenses are pairwise different, exactly one
  of them reports true.
\<close>

theorem is_fresh_attack_minimum_order:
  assumes "defender w a = Some d"
  shows "(length (defenses w d) = 1 \<longrightarrow> is_fresh_attack w a = Inr True)
    \<and> (1 < length (defenses w d) \<longrightarrow>
         is_fresh_attack w a = Inr (order a = Min (order ` set (defenses w d))))
    \<and> (1 < length (defenses w d) \<and> distinct (map order (defenses w d)) \<longrightarrow>
         (\<exists>!x. x \<in> set (defenses w d) \<and> is_fresh_attack w x = Inr True))"
proof (intro conjI impI)
  assume "length (defenses w d) = 1"
  with assms show "is_fresh_attack w a = Inr True"
    by (simp add: is_fresh_attack_def)
next
  assume "1 < length (defenses w d)"
  with assms show "is_fresh_attack w a = Inr (order a = Min (order ` set (defenses w d)))"
    by (rule is_fresh_attack_many)
next
  assume h: "1 < length (defenses w d) \<and> distinct (map order (defenses w d))"
  then have many: "1 < length (defenses w d)" and dist: "distinct (map order (defenses w d))"
    by simp_all
  from assms have td: "tag d = defender_tag a"
    by (simp add: defender_def get_member_tag)
  have fresh: "is_fresh_attack w x = Inr (order x = Min (order ` set (defenses w d)))"
    if "x \<in> set (defenses w d)" for x
  proof -
    from that have "defender_tag x = defender_tag a"
      using td by (simp add: defenses_defender_tag)
    then have "defender w x = Some d" using assms by (simp add: defender_def)
    then show ?thesis using many by (rule is_fresh_attack_many)
  qed
  from many have "defenses w d \<noteq> []" by auto
  then have "Min (order ` set (defenses w d)) \<in> order ` set (defenses w d)"
    by (intro Min_in) simp_all
  then obtain x where x: "x \<in> set (defenses w d)" "order x = Min (order ` set (defenses w d))"
    by auto
  from dist have inj: "inj_on order (set (defenses w d))"
    by (simp add: distinct_map)
  show "\<exists>!x. x \<in> set (defenses w d) \<and> is_fresh_attack w x = Inr True"
  proof (rule ex1I [of _ x])
    show "x \<in> set (defenses w d) \<and> is_fresh_attack w x = Inr True"
      using x fresh [OF x(1)] by simp
  next
    fix y assume "y \<in> set (defenses w d) \<and> is_fresh_attack w y = Inr True"
    then have y: "y \<in> set (defenses w d)" and "order y = Min (order ` set (defenses w d))"
      using fresh [of y] by simp_all
    then have "order y = order x" using x(2) by simp
    with inj y x(1) show "y = x" by (simp add: inj_on_eq_iff)
  qed
qed

lemma defenses_example:
  "defenses example_war member_o1 = [attack1, attack3]"
  "defenses example_war member_h1 = [attack2]"
  by (simp_all add: defenses_def example_war_def example_home_def example_away_def
      member_h1_def member_o1_def attack1_def attack2_def attack3_def)

lemma defender_example:
  "defender example_war attack1 = Some member_o1"
  "defender example_war attack3 = Some member_o1"
  "defender example_war attack2 = Some member_h1"
  by (simp_all add: defender_def get_member_example attack1_def attack2_def attack3_def)

theorem is_fresh_attack_minimum_order_witness:
  "defender example_war attack2 = Some member_h1
   \<and> length (defenses example_war member_h1) = 1
   \<and> is_fresh_attack example_war attack2 = Inr True
   \<and> defender example_war attack1 = Some member_o1
   \<and> defender example_war attack3 = Some member_o1
   \<and> defenses example_war member_o1 = [attack1, attack3]
   \<and> distinct (map order (defenses example_war member_o1))
   \<and> is_fresh_attack example_war attack1 = Inr True
   \<and> is_fresh_attack example_war attack3 = Inr False
   \<and> (\<exists>!x. x \<in> set (defenses example_war member_o1) \<and> is_fresh_attack example_war x = Inr True)"
proof -
  have o: "order attack1 = 1" "order attack3 = 3"
    by (simp_all add: attack1_def attack3_def)
  note a2 = is_fresh_attack_minimum_order [OF defender_example(3)]
  note a1 = is_fresh_attack_minimum_order [OF defender_example(1)]
  note a3 = is_fresh_attack_minimum_order [OF defender_example(2)]
  from a2 have 1: "is_fresh_attack example_war attack2 = Inr True"
    by (simp add: defenses_example)
  from a1 have 2: "is_fresh_attack example_war attack1 = Inr True"
    by (simp add: defenses_example o)
  from a3 have 3: "is_fresh_attack example_war attack3 = Inr False"
    by (simp add: defenses_example o)
  from a1 have 4: "\<exists>!x. x \<in> set (defenses example_war member_o1) \<and> is_fresh_attack example_war x = Inr True"
    by (simp add: defenses_example o)
  have 5: "distinct (map order (defenses example_war member_o1))"
    by (simp add: defenses_example o)
  from 1 2 3 4 5 show ?thesis
    by (simp add: defender_example defenses_example)
qed

section \<open>League groups\<close>

lemma visible_rounds_wellformed:
  "\<forall>n\<in>set declared. \<exists>t ts. n ''warTags'' = Some (t # ts) \<Longrightarrow>
   visible_rounds declared =
     Inr (filter (\<lambda>ts. hd ts \<noteq> ''#0'') (map (\<lambda>n. the (n ''warTags'')) declared))"
proof (induction declared)
  case Nil
  show ?case by simp
next
  case (Cons n ns)
  from Cons.prems obtain t ts where n: "n ''warTags'' = Some (t # ts)" by auto
  from Cons have IH: "visible_rounds ns =
     Inr (filter (\<lambda>ts. hd ts \<noteq> ''#0'') (map (\<lambda>n. the (n ''warTags'')) ns))" by simp
  show ?case by (simp add: n IH)
qed

lemma visible_rounds_Inr_wellformed:
  "visible_rounds declared = Inr rs \<Longrightarrow>
   \<forall>n\<in>set declared. \<exists>t ts. n ''warTags'' = Some (t # ts)"
proof (induction declared arbitrary: rs)
  case Nil
  show ?case by simp
next
  case (Cons n ns)
  from Cons.prems obtain t ts where n: "n ''warTags'' = Some (t # ts)"
    by (auto split: option.splits list.splits)
  from Cons.prems n obtain rs' where "visible_rounds ns = Inr rs'"
    by (auto split: if_splits sum.splits)
  then have "\<forall>n\<in>set ns. \<exists>t ts. n ''warTags'' = Some (t # ts)"
    by (rule Cons.IH)
  with n show ?case by simp
qed

lemma from_data_example: "from_data example_group_json = Inr example_group"
  by (simp add: from_data_def example_group_json_def example_group_def)

text \<open>
  C6. A payload whose declared rounds each carry a non-empty \<^verbatim>\<open>warTags\<close> list
  constructs a group. For every group constructed from a payload, the payload has a
  declared rounds list, the \<^verbatim>\<open>rounds\<close> of the group are the tag lists of the declared
  rounds whose first tag is not \<^verbatim>\<open>"#0"\<close>, in declared order (only the first tag is
  tested), and \<^verbatim>\<open>number_of_rounds\<close> is the length of the declared list.
\<close>

theorem from_data_rounds:
  fixes d :: "'d group_json"
  shows "(\<forall>declared. json_rounds d = Some declared
            \<and> (\<forall>n\<in>set declared. \<exists>t ts. n ''warTags'' = Some (t # ts)) \<longrightarrow>
          (\<exists>g :: ('d, 'c) ClanWarLeagueGroup. from_data d = Inr g))
    \<and> (\<forall>g :: ('d, 'c) ClanWarLeagueGroup. from_data d = Inr g \<longrightarrow>
          (\<exists>declared. json_rounds d = Some declared
             \<and> rounds g =
                 filter (\<lambda>ts. hd ts \<noteq> ''#0'') (map (\<lambda>n. the (n ''warTags'')) declared)
             \<and> number_of_rounds g = length declared))"
proof (intro conjI allI impI)
  fix declared
  assume "json_rounds d = Some declared
            \<and> (\<forall>n\<in>set declared. \<exists>t ts. n ''warTags'' = Some (t # ts))"
  then have r: "json_rounds d = Some declared"
    and wf: "\<forall>n\<in>set declared. \<exists>t ts. n ''warTags'' = Some (t # ts)" by simp_all
  show "\<exists>g :: ('d, 'c) ClanWarLeagueGroup. from_data d = Inr g"
    using r visible_rounds_wellformed [OF wf] by (simp add: from_data_def)
next
  fix g :: "('d, 'c) ClanWarLeagueGroup"
  assume c: "from_data d = Inr g"
  then obtain declared where r: "json_rounds d = Some declared"
    by (auto simp: from_data_def split: option.splits)
  from c r obtain rs where v: "visible_rounds declared = Inr rs"
    by (auto simp: from_data_def split: sum.splits)
  from v have wf: "\<forall>n\<in>set declared. \<exists>t ts. n ''warTags'' = Some (t # ts)"
    by (rule visible_rounds_Inr_wellformed)
  from c r v have "rounds g = rs" and n: "number_of_rounds g = length declared"
    by (auto simp: from_data_def)
  with v visible_rounds_wellformed [OF wf]
  have "rounds g = filter (\<lambda>ts. hd ts \<noteq> ''#0'') (map (\<lambda>n. the (n ''warTags'')) declared)"
    by simp
  with r n show "\<exists>declared. json_rounds d = Some declared
             \<and> rounds g =
                 filter (\<lambda>ts. hd ts \<noteq> ''#0'') (map (\<lambda>n. the (n ''warTags'')) declared)
             \<and> number_of_rounds g = length declared"
    by blast
qed

theorem from_data_rounds_witness:
  "json_rounds example_group_json =
     Some [[''warTags'' \<mapsto> [''#0'']], [''warTags'' \<mapsto> [''#0'']],
           [''warTags'' \<mapsto> [''#ABC'', ''#DEF'']]]
   \<and> from_data example_group_json = Inr example_group
   \<and> rounds example_group = [[''#ABC'', ''#DEF'']]
   \<and> length (rounds example_group) = 1
   \<and> number_of_rounds example_group = 3"
proof -
  let ?declared = "[[''warTags'' \<mapsto> [''#0'']], [''warTags'' \<mapsto> [''#0'']],
                    [''warTags'' \<mapsto> [''#ABC'', ''#DEF'']]] :: round_json list"
  have r: "json_rounds example_group_json = Some ?declared"
    by (simp add: example_group_json_def)
  from from_data_rounds [of example_group_json, where ?'c = "string \<times> nat"] from_data_example r
  have "rounds example_group =
          filter (\<lambda>ts. hd ts \<noteq> ''#0'') (map (\<lambda>n. the (n ''warTags'')) ?declared)"
    and n: "number_of_rounds example_group = length ?declared"
    by auto
  then have "rounds example_group = [[''#ABC'', ''#DEF'']]" by simp
  with r n from_data_example show ?thesis by simp
qed

lemma py_index_hd: "length xs = 1 \<Longrightarrow> py_index xs (- 1) = Inr (hd xs)"
  by (cases xs) (simp_all add: py_index_def)

lemma py_index_out_of_range:
  "int (length xs) \<le> i \<or> i < - int (length xs) \<Longrightarrow> py_index xs i = Inl IndexError"
  by (auto simp: py_index_def)

text \<open>
  C7. With exactly one visible round, \<^verbatim>\<open>get_wars\<close> with the round index -2, the
  default, behaves as with -1 and resolves that round. With two or more visible rounds,
  an index outside \<open>[-n, n)\<close> raises \<^verbatim>\<open>IndexError\<close>, and an index inside it resolves the
  round at that index, counted from the end when negative: nothing is clamped.
\<close>

theorem get_wars_round_index:
  "(length (rounds g) = 1 \<longrightarrow>
      get_wars g (- 2) c = get_wars g (- 1) c
    \<and> get_wars g (- 2) c = Inr \<lparr> tags = hd (rounds g), cache = c \<rparr>
    \<and> get_wars_default g = Inr \<lparr> tags = hd (rounds g), cache = True \<rparr>)
   \<and> (2 \<le> length (rounds g) \<and> (int (length (rounds g)) \<le> i \<or> i < - int (length (rounds g))) \<longrightarrow>
        get_wars g i c = Inl IndexError)
   \<and> (2 \<le> length (rounds g) \<and> 0 \<le> i \<and> i < int (length (rounds g)) \<longrightarrow>
        get_wars g i c = Inr \<lparr> tags = rounds g ! nat i, cache = c \<rparr>)
   \<and> (2 \<le> length (rounds g) \<and> i < 0 \<and> - int (length (rounds g)) \<le> i \<longrightarrow>
        get_wars g i c = Inr \<lparr> tags = rounds g ! nat (int (length (rounds g)) + i), cache = c \<rparr>)"
proof (intro conjI impI)
  assume one: "length (rounds g) = 1"
  then have r: "\<And>c. get_wars g (- 2) c = Inr \<lparr> tags = hd (rounds g), cache = c \<rparr>"
    by (simp add: get_wars_def py_index_hd)
  from one have r1: "get_wars g (- 1) c = Inr \<lparr> tags = hd (rounds g), cache = c \<rparr>"
    by (simp add: get_wars_def py_index_hd)
  show "get_wars g (- 2) c = get_wars g (- 1) c" by (simp only: r r1)
  show "get_wars g (- 2) c = Inr \<lparr> tags = hd (rounds g), cache = c \<rparr>" by (rule r)
  show "get_wars_default g = Inr \<lparr> tags = hd (rounds g), cache = True \<rparr>"
    by (simp only: get_wars_default_def r)
next
  assume "2 \<le> length (rounds g) \<and> (int (length (rounds g)) \<le> i \<or> i < - int (length (rounds g)))"
  then have "length (rounds g) \<noteq> 1" and "py_index (rounds g) i = Inl IndexError"
    by (simp_all add: py_index_out_of_range)
  then show "get_wars g i c = Inl IndexError" by (simp add: get_wars_def)
next
  assume "2 \<le> length (rounds g) \<and> 0 \<le> i \<and> i < int (length (rounds g))"
  then show "get_wars g i c = Inr \<lparr> tags = rounds g ! nat i, cache = c \<rparr>"
    by (simp add: get_wars_def py_index_def)
next
  assume "2 \<le> length (rounds g) \<and> i < 0 \<and> - int (length (rounds g)) \<le> i"
  then show "get_wars g i c = Inr \<lparr> tags = rounds g ! nat (int (length (rounds g)) + i), cache = c \<rparr>"
    by (simp add: get_wars_def py_index_def)
qed

theorem get_wars_round_index_witness:
  "rounds example_group = [[''#ABC'', ''#DEF'']]
   \<and> get_wars_default example_group = Inr \<lparr> tags = [''#ABC'', ''#DEF''], cache = True \<rparr>
   \<and> get_wars example_group (- 2) False = get_wars example_group (- 1) False
   \<and> rounds example_group2 = [[''#ABC'', ''#DEF''], [''#GHI'', ''#JKL'']]
   \<and> get_wars example_group2 2 True = Inl IndexError
   \<and> get_wars example_group2 (- 3) True = Inl IndexError
   \<and> get_wars example_group2 (- 2) True = Inr \<lparr> tags = [''#ABC'', ''#DEF''], cache = True \<rparr>
   \<and> get_wars example_group2 1 True = Inr \<lparr> tags = [''#GHI'', ''#JKL''], cache = True \<rparr>"
proof -
  have r1: "rounds example_group = [[''#ABC'', ''#DEF'']]"
    by (simp add: example_group_def)
  have r2: "rounds example_group2 = [[''#ABC'', ''#DEF''], [''#GHI'', ''#JKL'']]"
    by (simp add: example_group2_def)
  from get_wars_round_index [where g = example_group and c = True]
  have 1: "get_wars_default example_group = Inr \<lparr> tags = [''#ABC'', ''#DEF''], cache = True \<rparr>"
    by (simp add: r1)
  from get_wars_round_index [where g = example_group and c = False]
  have 2: "get_wars example_group (- 2) False = get_wars example_group (- 1) False"
    by (simp add: r1)
  from get_wars_round_index [where g = example_group2 and i = 2 and c = True]
  have 3: "get_wars example_group2 2 True = Inl IndexError"
    by (simp add: r2)
  from get_wars_round_index [where g = example_group2 and i = "- 3" and c = True]
  have 4: "get_wars example_group2 (- 3) True = Inl IndexError"
    by (simp add: r2)
  from get_wars_round_index [where g = example_group2 and i = "- 2" and c = True]
  have 5: "get_wars example_group2 (- 2) True = Inr \<lparr> tags = [''#ABC'', ''#DEF''], cache = True \<rparr>"
    by (simp add: r2)
  from get_wars_round_index [where g = example_group2 and i = 1 and c = True]
  have 6: "get_wars example_group2 1 True = Inr \<lparr> tags = [''#GHI'', ''#JKL''], cache = True \<rparr>"
    by (simp add: r2)
  from r1 r2 1 2 3 4 5 6 show ?thesis by blast
qed

lemma clans_twice: "clans mk' (snd (clans mk g)) = (fst (clans mk g), snd (clans mk g))"
  by (cases "priv_clans g = []"; cases "iter_clans g = []") (simp_all add: clans_def)

lemma from_data_fresh:
  "from_data d = Inr g \<Longrightarrow>
   priv_clans g = [] \<and> constructed g = 0
   \<and> iter_clans g = (case json_clans d of None \<Rightarrow> [] | Some cs \<Rightarrow> cs)"
  by (auto simp: from_data_def split: option.splits sum.splits)

text \<open>
  The model with identities returns the content, and leaves the fields, that the model
  by value gives; the cache refers to the object returned.
\<close>

lemma clans_at_content: "snd (fst (clans_at mk s)) = fst (clans mk (group_fields s))"
  by (simp add: clans_at_def clans_def)

lemma clans_at_fields: "group_fields (snd (clans_at mk s)) = snd (clans mk (group_fields s))"
  by (simp add: clans_at_def clans_def)

lemma clans_at_cached: "clans_id (snd (clans_at mk s)) = fst (fst (clans_at mk s))"
  by (simp add: clans_at_def)

lemma clans_at_same_object:
  "snd (fst (clans_at mk s)) \<noteq> [] \<Longrightarrow>
   clans_at mk' (snd (clans_at mk s)) = (fst (clans_at mk s), snd (clans_at mk s))"
  by (cases "priv_clans (group_fields s) = []") (simp_all add: clans_at_def)

lemma clans_at_new_object:
  "snd (fst (clans_at mk s)) = [] \<Longrightarrow>
   fst (clans_at mk' (snd (clans_at mk s))) = (Suc (fst (fst (clans_at mk s))), [])"
  by (cases "priv_clans (group_fields s) = []") (simp_all add: clans_at_def)

lemma from_data_empty_example: "from_data empty_group_json = Inr empty_group"
  by (simp add: from_data_def empty_group_json_def empty_group_def example_group_json_def
      example_group_def)

text \<open>
  C8 as stated fails on the code for a group without clans. The list cached by the first
  access is empty, hence false, so the second access does not return it: it runs
  \<^verbatim>\<open>list(self.__iter_clans)\<close> again on the exhausted generator and returns a new empty
  list. Here the first access returns and caches the list with identity 1, and the second
  access returns the list with identity 2.
\<close>

theorem clans_empty_group_counterexample:
  "from_data empty_group_json = Inr empty_group
   \<and> fst (clans_at example_mk (new_group_object empty_group)) = (1, [])
   \<and> clans_id (snd (clans_at example_mk (new_group_object empty_group))) = 1
   \<and> fst (clans_at example_mk (snd (clans_at example_mk (new_group_object empty_group)))) = (2, [])
   \<and> fst (fst (clans_at example_mk (snd (clans_at example_mk (new_group_object empty_group)))))
       \<noteq> clans_id (snd (clans_at example_mk (new_group_object empty_group)))"
  by (simp add: from_data_empty_example)
     (simp add: clans_at_def new_group_object_def empty_group_def example_group_def)

text \<open>
  C8, as the code has it. The first access of a freshly constructed group returns one
  constructed clan per payload of \<^verbatim>\<open>data.get("clans", [])\<close>, in order, caches that
  list and leaves the generator consumed. A second access returns the same content and
  leaves the group as it is whatever constructor it is given: it constructs no clan and
  reads nothing from the generator. When the group has at least one clan, the second
  access returns the cached list object itself and creates no list. When the group has no
  clans, the second access creates and returns a new empty list.
\<close>

theorem clans_memoized:
  fixes mk mk' :: "'d \<Rightarrow> 'c"
    and g :: "('d, 'c) ClanWarLeagueGroup"
    and s :: "('d, 'c) group_object"
  shows "clans mk' (snd (clans mk g)) = (fst (clans mk g), snd (clans mk g))
   \<and> priv_clans (snd (clans mk g)) = fst (clans mk g)
   \<and> (\<forall>d :: 'd group_json. from_data d = Inr g \<longrightarrow>
         fst (clans mk g) = map mk (case json_clans d of None \<Rightarrow> [] | Some cs \<Rightarrow> cs)
       \<and> iter_clans (snd (clans mk g)) = []
       \<and> constructed (snd (clans mk g)) = length (case json_clans d of None \<Rightarrow> [] | Some cs \<Rightarrow> cs))
   \<and> snd (fst (clans_at mk s)) = fst (clans mk (group_fields s))
   \<and> group_fields (snd (clans_at mk s)) = snd (clans mk (group_fields s))
   \<and> clans_id (snd (clans_at mk s)) = fst (fst (clans_at mk s))
   \<and> (snd (fst (clans_at mk s)) \<noteq> [] \<longrightarrow>
         clans_at mk' (snd (clans_at mk s)) = (fst (clans_at mk s), snd (clans_at mk s)))
   \<and> (snd (fst (clans_at mk s)) = [] \<longrightarrow>
         fst (clans_at mk' (snd (clans_at mk s))) = (Suc (fst (fst (clans_at mk s))), []))"
proof (intro conjI allI impI)
  show "clans mk' (snd (clans mk g)) = (fst (clans mk g), snd (clans mk g))"
    by (rule clans_twice)
  show "priv_clans (snd (clans mk g)) = fst (clans mk g)"
    by (simp add: clans_def)
  show "snd (fst (clans_at mk s)) = fst (clans mk (group_fields s))"
    by (rule clans_at_content)
  show "group_fields (snd (clans_at mk s)) = snd (clans mk (group_fields s))"
    by (rule clans_at_fields)
  show "clans_id (snd (clans_at mk s)) = fst (fst (clans_at mk s))"
    by (rule clans_at_cached)
next
  fix d :: "'d group_json" assume "from_data d = Inr g"
  then have g: "priv_clans g = []" "constructed g = 0"
    "iter_clans g = (case json_clans d of None \<Rightarrow> [] | Some cs \<Rightarrow> cs)"
    by (simp_all add: from_data_fresh)
  show "fst (clans mk g) = map mk (case json_clans d of None \<Rightarrow> [] | Some cs \<Rightarrow> cs)"
    by (simp add: clans_def g)
  show "iter_clans (snd (clans mk g)) = []"
    by (simp add: clans_def g)
  show "constructed (snd (clans mk g)) = length (case json_clans d of None \<Rightarrow> [] | Some cs \<Rightarrow> cs)"
    by (simp add: clans_def g)
next
  assume "snd (fst (clans_at mk s)) \<noteq> []"
  then show "clans_at mk' (snd (clans_at mk s)) = (fst (clans_at mk s), snd (clans_at mk s))"
    by (rule clans_at_same_object)
next
  assume "snd (fst (clans_at mk s)) = []"
  then show "fst (clans_at mk' (snd (clans_at mk s))) = (Suc (fst (fst (clans_at mk s))), [])"
    by (rule clans_at_new_object)
qed

theorem clans_memoized_witness:
  "from_data example_group_json = Inr example_group
   \<and> fst (clans example_mk example_group) = [(''#C1'', 3), (''#C22'', 4)]
   \<and> iter_clans (snd (clans example_mk example_group)) = []
   \<and> fst (clans other_mk (snd (clans example_mk example_group))) = [(''#C1'', 3), (''#C22'', 4)]
   \<and> snd (clans other_mk (snd (clans example_mk example_group))) = snd (clans example_mk example_group)
   \<and> fst (clans_at example_mk (new_group_object example_group)) = (1, [(''#C1'', 3), (''#C22'', 4)])
   \<and> clans_at other_mk (snd (clans_at example_mk (new_group_object example_group)))
       = ((1, [(''#C1'', 3), (''#C22'', 4)]), snd (clans_at example_mk (new_group_object example_group)))
   \<and> from_data empty_group_json = Inr empty_group
   \<and> fst (clans_at example_mk (new_group_object empty_group)) = (1, [])
   \<and> fst (clans_at other_mk (snd (clans_at example_mk (new_group_object empty_group)))) = (2, [])"
proof -
  let ?s = "new_group_object example_group"
  let ?e = "new_group_object empty_group"
  have c: "json_clans example_group_json = Some [''#C1'', ''#C22'']"
    by (simp add: example_group_json_def)
  have f: "group_fields ?s = example_group" "fresh_id ?s = 1"
    "group_fields ?e = empty_group" "fresh_id ?e = 1"
    by (simp_all add: new_group_object_def)
  have p: "priv_clans example_group = []" "priv_clans empty_group = []"
    "iter_clans empty_group = []"
    by (simp_all add: example_group_def empty_group_def)
  note full = clans_memoized [where mk = example_mk and mk' = other_mk and g = example_group and s = ?s]
  note none = clans_memoized [where mk = example_mk and mk' = other_mk and g = empty_group and s = ?e]
  from full from_data_example
  have 1: "fst (clans example_mk example_group) = [(''#C1'', 3), (''#C22'', 4)]"
    and 2: "iter_clans (snd (clans example_mk example_group)) = []"
    by (simp_all add: c example_mk_def)
  from full 1
  have 3: "fst (clans other_mk (snd (clans example_mk example_group))) = [(''#C1'', 3), (''#C22'', 4)]"
    and 4: "snd (clans other_mk (snd (clans example_mk example_group))) = snd (clans example_mk example_group)"
    by simp_all
  have i1: "fst (fst (clans_at example_mk ?s)) = 1"
    by (simp add: clans_at_def f p)
  from full 1 have "snd (fst (clans_at example_mk ?s)) = [(''#C1'', 3), (''#C22'', 4)]"
    by (simp add: f)
  with i1 have 5: "fst (clans_at example_mk ?s) = (1, [(''#C1'', 3), (''#C22'', 4)])"
    by (simp add: prod_eq_iff)
  from full 5
  have 6: "clans_at other_mk (snd (clans_at example_mk ?s))
             = ((1, [(''#C1'', 3), (''#C22'', 4)]), snd (clans_at example_mk ?s))"
    by simp
  have 7: "fst (clans_at example_mk ?e) = (1, [])"
    by (simp add: clans_at_def f p)
  from none 7
  have 8: "fst (clans_at other_mk (snd (clans_at example_mk ?e))) = (2, [])"
    by simp
  from from_data_example 1 2 3 4 5 6 from_data_empty_example 7 8 show ?thesis by blast
qed

end
